theory Spec2Isabelle
  imports Main "HOL-Library.Word"
begin

unbundle bit_operations_syntax

section \<open>Values shared by the key-control core\<close>

type_synonym byte = "8 word"
type_synonym bytes = "byte list"

text \<open>
  \<open>Nonce\<close>, \<open>ChainId\<close> and \<open>SignatureBytes\<close> come from the types package. The profile
  only copies them, so a nonce is an integer, a chain id a string and a signature a byte
  string. The transaction type is a parameter \<open>'tx\<close>: the profile never looks inside.
\<close>

type_synonym nonce = int
type_synonym chain_id = string
type_synonym signature_bytes = bytes

record public_key_bundle =
  algo :: string
  data :: bytes

text \<open>
  \<open>PublicIdentity\<close> is an object with a \<open>pubkey\<close>; a \<open>LocalIdentity\<close> is a
  \<open>PublicIdentity\<close> that may carry a label. One record serves for both, as a
  \<open>LocalIdentity\<close> may be passed wherever a \<open>PublicIdentity\<close> is expected.
\<close>

record identity =
  pubkey :: public_key_bundle
  label :: "string option"

record full_signature =
  publicKey :: public_key_bundle
  nonce :: nonce
  signature :: signature_bytes

section \<open>The heap of signature arrays\<close>

text \<open>
  \<open>SignedTransaction.otherSignatures\<close> is a JavaScript array, held by reference. The
  arrays live in a heap, a list indexed by address; allocation appends, so an address
  once given out keeps its meaning. A \<open>SignedTransaction\<close> holds the address of its
  array.
\<close>

type_synonym addr = nat
type_synonym sig_heap = "full_signature list list"

definition alloc :: "sig_heap \<Rightarrow> full_signature list \<Rightarrow> addr \<times> sig_heap" where
  "alloc h v = (length h, h @ [v])"

definition deref :: "sig_heap \<Rightarrow> addr \<Rightarrow> full_signature list" where
  "deref h a = h ! a"

record 'tx signed_transaction =
  transaction :: 'tx
  primarySignature :: full_signature
  otherSignatures :: addr

section \<open>Dates\<close>

text \<open>
  \<open>ReadonlyDate\<close> is the JavaScript \<open>Date\<close> behind a read-only interface: a time value
  in milliseconds, or the invalid date (time value \<open>NaN\<close>), which
  \<open>new ReadonlyDate(s)\<close> yields for a string it cannot parse. \<open>toISOString\<close> throws
  a \<open>RangeError\<close> on the invalid date. How a string is parsed and how a time value
  is printed are parameters (\<open>parse\<close>, \<open>iso_text\<close>).
\<close>

datatype readonly_date = TimeValue int | InvalidDate

section \<open>Errors\<close>

text \<open>
  The profile throws \<open>Error("UserProfile is currently locked")\<close> (\<open>ProfileLocked\<close>)
  and \<open>Error("Entry of index n does not exist in keyring")\<close> (\<open>EntryNotFound n\<close>).
  A \<open>get\<close> of the store on an absent key rejects with a not-found error
  (\<open>MissingField key\<close>). \<open>InvalidTimeValue\<close> is the \<open>RangeError\<close> of
  \<open>toISOString\<close>, \<open>InvalidSerialization\<close> a failure of the \<open>Keyring\<close>
  constructor, and \<open>EntryFailure x\<close> an error \<open>x\<close> thrown by a keyring entry, passed
  on unchanged.
\<close>

datatype 'x error =
    ProfileLocked
  | EntryNotFound int
  | MissingField string
  | InvalidTimeValue
  | InvalidSerialization
  | EntryFailure 'x

section \<open>The key-value store\<close>

type_synonym store = "string \<rightharpoonup> string"

definition storageKeyCreatedAt :: string where
  "storageKeyCreatedAt = ''created_at''"

definition storageKeyKeyring :: string where
  "storageKeyKeyring = ''keyring''"

definition db_get :: "store \<Rightarrow> string \<Rightarrow> 'x error + string" where
  "db_get db key = (case db key of None \<Rightarrow> Inl (MissingField key) | Some v \<Rightarrow> Inr v)"

definition db_put :: "store \<Rightarrow> string \<Rightarrow> string \<Rightarrow> store" where
  "db_put db key v = db(key \<mapsto> v)"

text \<open>
  Modelled from the spec: \<open>DatabaseUtils.clear\<close> (in \<open>./utils\<close>, not among the
  sources). The store's \<open>clear()\<close> removes every record.
\<close>

definition db_clear :: "store \<Rightarrow> store" where
  "db_clear db = Map.empty"

section \<open>Keyring and profile\<close>

text \<open>
  A \<open>Keyring\<close> is an ordered collection of entries of a type \<open>'e\<close>. What an entry does
  (\<open>createIdentity\<close>, \<open>setIdentityLabel\<close>, \<open>getIdentities\<close>,
  \<open>createTransactionSignature\<close>), and how a keyring is serialized and read back, are
  collaborators: each is a parameter of the operation that calls it.
\<close>

datatype 'e keyring = Keyring (getEntries: "'e list")

record 'e user_profile =
  createdAt :: readonly_date
  keyring :: "'e keyring option"
  lockedValue :: bool

text \<open>
  \<open>Array.prototype.find\<close> with a predicate on the element and its index: the first
  element the predicate accepts, or nothing (\<open>undefined\<close>).
\<close>

fun find_from :: "('a \<Rightarrow> int \<Rightarrow> bool) \<Rightarrow> 'a list \<Rightarrow> int \<Rightarrow> 'a option" where
  "find_from P [] i = None"
| "find_from P (x # xs) i = (if P x i then Some x else find_from P xs (i + 1))"

definition array_find :: "('a \<Rightarrow> int \<Rightarrow> bool) \<Rightarrow> 'a list \<Rightarrow> 'a option" where
  "array_find P xs = find_from P xs 0"

text \<open>
  \<open>this.keyring.getEntries().find((_, index) => index === n)\<close>. The index \<open>n\<close> is a
  JavaScript number; the model takes an integer, negative ones included.
\<close>

definition nth_entry :: "'e keyring \<Rightarrow> int \<Rightarrow> 'e option" where
  "nth_entry k n = array_find (\<lambda>_ index. index = n) (getEntries k)"

text \<open>An index is out of range of a keyring when it addresses none of its entries.\<close>

definition entry_index_out_of_range :: "'e keyring \<Rightarrow> int \<Rightarrow> bool" where
  "entry_index_out_of_range k n \<longleftrightarrow> n < 0 \<or> int (length (getEntries k)) \<le> n"

text \<open>The constructor: \<open>new Keyring(keyringSerialization)\<close> may throw.\<close>

definition UserProfile ::
  "(string \<Rightarrow> 'e keyring option) \<Rightarrow> readonly_date \<Rightarrow> string \<Rightarrow> 'x error + 'e user_profile" where
  "UserProfile deserialize created ser =
     (case deserialize ser of
        None \<Rightarrow> Inl InvalidSerialization
      | Some k \<Rightarrow> Inr \<lparr>createdAt = created, keyring = Some k, lockedValue = False\<rparr>)"

definition loadFrom ::
  "(string \<Rightarrow> readonly_date) \<Rightarrow> (string \<Rightarrow> 'e keyring option) \<Rightarrow> store
    \<Rightarrow> 'x error + 'e user_profile" where
  "loadFrom parse deserialize storage =
     (case db_get storage storageKeyCreatedAt of
        Inl e \<Rightarrow> Inl e
      | Inr c \<Rightarrow>
          (case db_get storage storageKeyKeyring of
             Inl e \<Rightarrow> Inl e
           | Inr k \<Rightarrow> UserProfile deserialize (parse c) k))"

definition toISOString :: "(int \<Rightarrow> string) \<Rightarrow> readonly_date \<Rightarrow> 'x error + string" where
  "toISOString iso_text d =
     (case d of InvalidDate \<Rightarrow> Inl InvalidTimeValue | TimeValue t \<Rightarrow> Inr (iso_text t))"

text \<open>
  \<open>storeIn\<close> returns its outcome and the store it leaves behind: an error thrown after
  \<open>clear\<close> leaves the store cleared.
\<close>

definition storeIn ::
  "('e keyring \<Rightarrow> string) \<Rightarrow> (int \<Rightarrow> string) \<Rightarrow> 'e user_profile \<Rightarrow> store
    \<Rightarrow> ('x error + unit) \<times> store" where
  "storeIn serialize iso_text p storage =
     (case keyring p of
        None \<Rightarrow> (Inl ProfileLocked, storage)
      | Some k \<Rightarrow>
          (let db1 = db_clear storage in
           case toISOString iso_text (createdAt p) of
             Inl e \<Rightarrow> (Inl e, db1)
           | Inr c \<Rightarrow>
               (let db2 = db_put db1 storageKeyCreatedAt c;
                    db3 = db_put db2 storageKeyKeyring (serialize k)
                in (Inr (), db3))))"

definition lock :: "'e user_profile \<Rightarrow> 'e user_profile" where
  "lock p = p\<lparr>keyring := None, lockedValue := True\<rparr>"

text \<open>
  \<open>createIdentity\<close> and \<open>setIdentityLabel\<close> change the entry they address; the profile
  returned holds the changed entry in its place.
\<close>

definition set_entry :: "'e user_profile \<Rightarrow> 'e keyring \<Rightarrow> int \<Rightarrow> 'e \<Rightarrow> 'e user_profile" where
  "set_entry p k n e = p\<lparr>keyring := Some (Keyring ((getEntries k)[nat n := e]))\<rparr>"

definition createIdentity ::
  "('e \<Rightarrow> 'x + identity \<times> 'e) \<Rightarrow> 'e user_profile \<Rightarrow> int
    \<Rightarrow> 'x error + identity \<times> 'e user_profile" where
  "createIdentity entry_createIdentity p n =
     (case keyring p of
        None \<Rightarrow> Inl ProfileLocked
      | Some k \<Rightarrow>
          (case nth_entry k n of
             None \<Rightarrow> Inl (EntryNotFound n)
           | Some entry \<Rightarrow>
               (case entry_createIdentity entry of
                  Inl x \<Rightarrow> Inl (EntryFailure x)
                | Inr (i, entry') \<Rightarrow> Inr (i, set_entry p k n entry'))))"

definition setIdentityLabel ::
  "('e \<Rightarrow> identity \<Rightarrow> string option \<Rightarrow> 'x + 'e) \<Rightarrow> 'e user_profile \<Rightarrow> int \<Rightarrow> identity
    \<Rightarrow> string option \<Rightarrow> 'x error + 'e user_profile" where
  "setIdentityLabel entry_setIdentityLabel p n i l =
     (case keyring p of
        None \<Rightarrow> Inl ProfileLocked
      | Some k \<Rightarrow>
          (case nth_entry k n of
             None \<Rightarrow> Inl (EntryNotFound n)
           | Some entry \<Rightarrow>
               (case entry_setIdentityLabel entry i l of
                  Inl x \<Rightarrow> Inl (EntryFailure x)
                | Inr entry' \<Rightarrow> Inr (set_entry p k n entry'))))"

definition getIdentities ::
  "('e \<Rightarrow> identity list) \<Rightarrow> 'e user_profile \<Rightarrow> int \<Rightarrow> 'x error + identity list" where
  "getIdentities entry_getIdentities p n =
     (case keyring p of
        None \<Rightarrow> Inl ProfileLocked
      | Some k \<Rightarrow>
          (case nth_entry k n of
             None \<Rightarrow> Inl (EntryNotFound n)
           | Some entry \<Rightarrow> Inr (entry_getIdentities entry)))"

text \<open>
  \<open>signTransaction\<close> and \<open>appendSignature\<close>. \<open>sign\<close> is the entry's
  \<open>createTransactionSignature(identity, bytes, chainId)\<close>, \<open>bytesToSign\<close> the codec's.
  Both return the heap as well: each allocates the array of the value it returns.
\<close>

definition signTransaction ::
  "('e \<Rightarrow> identity \<Rightarrow> bytes \<Rightarrow> chain_id \<Rightarrow> 'x + signature_bytes) \<Rightarrow> ('tx \<Rightarrow> nonce \<Rightarrow> bytes)
    \<Rightarrow> 'e user_profile \<Rightarrow> sig_heap \<Rightarrow> int \<Rightarrow> identity \<Rightarrow> 'tx \<Rightarrow> nonce
    \<Rightarrow> 'x error + 'tx signed_transaction \<times> sig_heap" where
  "signTransaction sign bytesToSign p h n i tx nc =
     (case keyring p of
        None \<Rightarrow> Inl ProfileLocked
      | Some k \<Rightarrow>
          (case nth_entry k n of
             None \<Rightarrow> Inl (EntryNotFound n)
           | Some entry \<Rightarrow>
               (let bs = bytesToSign tx nc in
                case sign entry i bs ''chain!'' of
                  Inl x \<Rightarrow> Inl (EntryFailure x)
                | Inr s \<Rightarrow>
                    (let sg = \<lparr>publicKey = pubkey i, nonce = nc, signature = s\<rparr>;
                         (a, h') = alloc h []
                     in Inr (\<lparr>transaction = tx, primarySignature = sg, otherSignatures = a\<rparr>,
                             h')))))"

definition appendSignature ::
  "('e \<Rightarrow> identity \<Rightarrow> bytes \<Rightarrow> chain_id \<Rightarrow> 'x + signature_bytes) \<Rightarrow> ('tx \<Rightarrow> nonce \<Rightarrow> bytes)
    \<Rightarrow> 'e user_profile \<Rightarrow> sig_heap \<Rightarrow> int \<Rightarrow> identity \<Rightarrow> 'tx signed_transaction \<Rightarrow> nonce
    \<Rightarrow> 'x error + 'tx signed_transaction \<times> sig_heap" where
  "appendSignature sign bytesToSign p h n i originalTransaction nc =
     (case keyring p of
        None \<Rightarrow> Inl ProfileLocked
      | Some k \<Rightarrow>
          (case nth_entry k n of
             None \<Rightarrow> Inl (EntryNotFound n)
           | Some entry \<Rightarrow>
               (let bs = bytesToSign (transaction originalTransaction) nc in
                case sign entry i bs ''chain!'' of
                  Inl x \<Rightarrow> Inl (EntryFailure x)
                | Inr s \<Rightarrow>
                    (let newSignature = \<lparr>publicKey = pubkey i, nonce = nc, signature = s\<rparr>;
                         (a, h') =
                           alloc h (deref h (otherSignatures originalTransaction) @ [newSignature])
                     in Inr (\<lparr>transaction = transaction originalTransaction,
                              primarySignature = primarySignature originalTransaction,
                              otherSignatures = a\<rparr>,
                             h')))))"

section \<open>Example values\<close>

definition example_keyring :: "nat keyring" where
  "example_keyring = Keyring [0, 7]"

definition example_profile :: "nat user_profile" where
  "example_profile = \<lparr>createdAt = TimeValue 0, keyring = Some example_keyring, lockedValue = False\<rparr>"

definition example_identity :: identity where
  "example_identity = \<lparr>pubkey = \<lparr>algo = ''ed25519'', data = [1, 2, 3]\<rparr>, label = None\<rparr>"

definition example_sign :: "nat \<Rightarrow> identity \<Rightarrow> bytes \<Rightarrow> chain_id \<Rightarrow> string + signature_bytes" where
  "example_sign e i bs c = (if data (pubkey i) = [] then Inl ''no private key'' else Inr (of_nat e # bs))"

definition example_codec :: "string \<Rightarrow> nonce \<Rightarrow> bytes" where
  "example_codec tx nc = word_of_int nc # map (\<lambda>c. of_nat (of_char c)) tx"

definition example_createIdentity :: "nat \<Rightarrow> string + identity \<times> nat" where
  "example_createIdentity e = Inr (example_identity, Suc e)"

definition example_setIdentityLabel :: "nat \<Rightarrow> identity \<Rightarrow> string option \<Rightarrow> string + nat" where
  "example_setIdentityLabel e i l = (if e = 0 then Inl ''identity not found'' else Inr e)"

definition example_getIdentities :: "nat \<Rightarrow> identity list" where
  "example_getIdentities e = replicate e example_identity"

definition example_signed :: "string signed_transaction" where
  "example_signed =
     \<lparr>transaction = ''send'',
      primarySignature = \<lparr>publicKey = pubkey example_identity, nonce = 4, signature = [9]\<rparr>,
      otherSignatures = 0\<rparr>"

definition example_heap :: sig_heap where
  "example_heap = [[]]"

definition example_first_cosignature :: full_signature where
  "example_first_cosignature =
     \<lparr>publicKey = \<lparr>algo = ''ed25519'', data = [4]\<rparr>, nonce = 2, signature = [10]\<rparr>"

definition example_second_cosignature :: full_signature where
  "example_second_cosignature =
     \<lparr>publicKey = \<lparr>algo = ''ed25519'', data = [5]\<rparr>, nonce = 3, signature = [11]\<rparr>"

text \<open>
  A heap of two arrays, and a transaction already signed by two co-signers: its
  \<open>otherSignatures\<close> is the second array.
\<close>

definition example_cosigned_heap :: sig_heap where
  "example_cosigned_heap = [[], [example_first_cosignature, example_second_cosignature]]"

definition example_cosigned :: "string signed_transaction" where
  "example_cosigned =
     \<lparr>transaction = ''send'',
      primarySignature = \<lparr>publicKey = pubkey example_identity, nonce = 4, signature = [9]\<rparr>,
      otherSignatures = 1\<rparr>"

definition example_sign_other_chains ::
  "nat \<Rightarrow> identity \<Rightarrow> bytes \<Rightarrow> chain_id \<Rightarrow> string + signature_bytes" where
  "example_sign_other_chains e i bs c =
     (if c = ''chain!'' then example_sign e i bs c else Inl ''unknown chain'')"

definition example_undated :: "nat user_profile" where
  "example_undated = \<lparr>createdAt = InvalidDate, keyring = Some example_keyring, lockedValue = False\<rparr>"

definition example_store :: store where
  "example_store = [''foo'' \<mapsto> ''bar'']"

definition example_parse :: "string \<Rightarrow> readonly_date" where
  "example_parse s = (if s = ''1970-01-01T00:00:00.000Z'' then TimeValue 0 else InvalidDate)"

definition example_deserialize :: "string \<Rightarrow> nat keyring option" where
  "example_deserialize s = (if s = ''[]'' then Some (Keyring []) else None)"

definition example_stored :: store where
  "example_stored = [''created_at'' \<mapsto> ''1970-01-01T00:00:00.000Z'', ''keyring'' \<mapsto> ''[]'']"

section \<open>Entry lookup\<close>

lemma find_from_index:
  "find_from (\<lambda>_ index. index = n) xs i =
     (if i \<le> n \<and> n < i + int (length xs) then Some (xs ! nat (n - i)) else None)"
proof (induction xs arbitrary: i)
  case Nil
  then show ?case by simp
next
  case (Cons x xs)
  show ?case
  proof (cases "i = n")
    case True
    then show ?thesis by simp
  next
    case False
    have "nat (n - i) = Suc (nat (n - (i + 1)))" if "i < n"
      using that by simp
    with False show ?thesis
      by (auto simp: Cons.IH)
  qed
qed

lemma nth_entry_eq:
  "nth_entry k n =
     (if 0 \<le> n \<and> n < int (length (getEntries k)) then Some (getEntries k ! nat n) else None)"
  by (simp add: nth_entry_def array_find_def find_from_index)

lemma nth_entry_None: "nth_entry k n = None \<longleftrightarrow> (n < 0 \<or> int (length (getEntries k)) \<le> n)"
  by (auto simp: nth_entry_eq)

lemma nth_entry_Some:
  "0 \<le> n \<Longrightarrow> n < int (length (getEntries k)) \<Longrightarrow> nth_entry k n = Some (getEntries k ! nat n)"
  by (simp add: nth_entry_eq)

section \<open>The profile's operations\<close>

lemma lock_locked: "keyring (lock p) = None" "lockedValue (lock p)" "lock (lock p) = lock p"
  by (simp_all add: lock_def)

lemma locked_calls:
  assumes "keyring q = None"
  shows "createIdentity ci q n = Inl ProfileLocked"
    and "setIdentityLabel sl q n i l = Inl ProfileLocked"
    and "getIdentities gi q n = Inl ProfileLocked"
    and "signTransaction sg bts q h n i tx nc = Inl ProfileLocked"
    and "appendSignature sg bts q h n i stx nc = Inl ProfileLocked"
    and "storeIn ser iso_text q db = (Inl ProfileLocked, db)"
  using assms
  by (simp_all add: createIdentity_def setIdentityLabel_def getIdentities_def
      signTransaction_def appendSignature_def storeIn_def)

lemma missing_entry_calls:
  assumes "keyring q = Some k" and "nth_entry k n = None"
  shows "createIdentity ci q n = Inl (EntryNotFound n)"
    and "setIdentityLabel sl q n i l = Inl (EntryNotFound n)"
    and "getIdentities gi q n = Inl (EntryNotFound n)"
    and "signTransaction sg bts q h n i tx nc = Inl (EntryNotFound n)"
    and "appendSignature sg bts q h n i stx nc = Inl (EntryNotFound n)"
  using assms
  by (simp_all add: createIdentity_def setIdentityLabel_def getIdentities_def
      signTransaction_def appendSignature_def)

lemma present_entry_calls:
  assumes "keyring q = Some k" and "nth_entry k n = Some e"
  shows "createIdentity ci q n \<noteq> Inl (EntryNotFound m)"
    and "setIdentityLabel sl q n i l \<noteq> Inl (EntryNotFound m)"
    and "getIdentities gi q n \<noteq> Inl (EntryNotFound m)"
    and "signTransaction sg bts q h n i tx nc \<noteq> Inl (EntryNotFound m)"
    and "appendSignature sg bts q h n i stx nc \<noteq> Inl (EntryNotFound m)"
  using assms
  by (simp_all add: createIdentity_def setIdentityLabel_def getIdentities_def
      signTransaction_def appendSignature_def Let_def alloc_def split: sum.split prod.split)

lemma storeIn_no_EntryNotFound: "fst (storeIn ser iso_text q db) \<noteq> Inl (EntryNotFound m)"
  by (simp add: storeIn_def toISOString_def Let_def split: option.split readonly_date.split)

text \<open>
  Claim C2. \<open>lock()\<close> is a total state change: it drops the keyring and sets the locked
  value, and locking twice is locking once. On a locked profile each of
  \<open>createIdentity\<close>, \<open>setIdentityLabel\<close>, \<open>getIdentities\<close>, \<open>signTransaction\<close>,
  \<open>appendSignature\<close> and \<open>storeIn\<close> fails with \<open>ProfileLocked\<close> (\<open>storeIn\<close>
  leaving the store as it was). On an unlocked profile each of the five operations
  that take an entry index fails with \<open>EntryNotFound\<close> exactly when the index is
  outside the keyring's entries, and then reports that index; \<open>storeIn\<close>, which
  takes no index, never fails so.
\<close>

theorem locked_profile_rejects_calls:
  "keyring (lock p) = None \<and> lockedValue (lock p) \<and> lock (lock p) = lock p
   \<and> createIdentity (ci :: 'e \<Rightarrow> 'x + identity \<times> 'e) (lock p) n = Inl ProfileLocked
   \<and> setIdentityLabel sl (lock p) n i l = Inl ProfileLocked
   \<and> (getIdentities gi (lock p) n :: 'x error + identity list) = Inl ProfileLocked
   \<and> signTransaction sg bts (lock p) h n i tx nc = Inl ProfileLocked
   \<and> appendSignature sg bts (lock p) h n i stx nc = Inl ProfileLocked
   \<and> (storeIn ser iso_text (lock p) db :: ('x error + unit) \<times> store) = (Inl ProfileLocked, db)
   \<and> (keyring q = Some k \<longrightarrow>
        ((\<exists>m. createIdentity ci q n = Inl (EntryNotFound m)) \<longleftrightarrow> entry_index_out_of_range k n)
      \<and> ((\<exists>m. setIdentityLabel sl q n i l = Inl (EntryNotFound m)) \<longleftrightarrow> entry_index_out_of_range k n)
      \<and> ((\<exists>m. (getIdentities gi q n :: 'x error + identity list) = Inl (EntryNotFound m))
            \<longleftrightarrow> entry_index_out_of_range k n)
      \<and> ((\<exists>m. signTransaction sg bts q h n i tx nc = Inl (EntryNotFound m))
            \<longleftrightarrow> entry_index_out_of_range k n)
      \<and> ((\<exists>m. appendSignature sg bts q h n i stx nc = Inl (EntryNotFound m))
            \<longleftrightarrow> entry_index_out_of_range k n)
      \<and> (entry_index_out_of_range k n \<longrightarrow>
            createIdentity ci q n = Inl (EntryNotFound n)
          \<and> setIdentityLabel sl q n i l = Inl (EntryNotFound n)
          \<and> (getIdentities gi q n :: 'x error + identity list) = Inl (EntryNotFound n)
          \<and> signTransaction sg bts q h n i tx nc = Inl (EntryNotFound n)
          \<and> appendSignature sg bts q h n i stx nc = Inl (EntryNotFound n))
      \<and> (\<forall>m. fst (storeIn ser iso_text q db :: ('x error + unit) \<times> store) \<noteq> Inl (EntryNotFound m)))"
proof (cases "keyring q = Some k")
  case False
  then show ?thesis
    by (simp add: lock_locked locked_calls)
next
  case unlocked: True
  show ?thesis
  proof (cases "entry_index_out_of_range k n")
    case True
    then have "nth_entry k n = None"
      by (simp add: nth_entry_None entry_index_out_of_range_def)
    with unlocked True show ?thesis
      by (simp add: lock_locked locked_calls missing_entry_calls storeIn_no_EntryNotFound)
  next
    case False
    then have "nth_entry k n = Some (getEntries k ! nat n)"
      by (simp add: nth_entry_eq entry_index_out_of_range_def)
    with unlocked False show ?thesis
      by (simp add: lock_locked locked_calls present_entry_calls storeIn_no_EntryNotFound)
  qed
qed

theorem locked_profile_rejects_calls_witness:
  "createIdentity example_createIdentity (lock example_profile) 1 = Inl ProfileLocked
   \<and> (storeIn (\<lambda>k. ''[]'') (\<lambda>t. ''1970'') (lock example_profile) Map.empty
        :: (string error + unit) \<times> store) = (Inl ProfileLocked, Map.empty)
   \<and> keyring example_profile = Some example_keyring
   \<and> entry_index_out_of_range example_keyring 2
   \<and> signTransaction example_sign example_codec example_profile [[]] 2 example_identity ''send'' 5
       = Inl (EntryNotFound 2)
   \<and> \<not> entry_index_out_of_range example_keyring 1
   \<and> (\<nexists>m. createIdentity example_createIdentity example_profile 1 = Inl (EntryNotFound m))"
proof -
  have k: "keyring example_profile = Some example_keyring"
    by (simp add: example_profile_def)
  have out: "entry_index_out_of_range example_keyring 2"
    and inside: "\<not> entry_index_out_of_range example_keyring 1"
    by (simp_all add: example_keyring_def entry_index_out_of_range_def)
  note at_1 = locked_profile_rejects_calls [of example_profile example_createIdentity 1
      example_setIdentityLabel example_identity None example_getIdentities
      example_sign example_codec "[[]]" "''send''" 5 example_signed "\<lambda>k. ''[]''" "\<lambda>t. ''1970''"
      Map.empty example_profile example_keyring]
  note at_2 = locked_profile_rejects_calls [of example_profile example_createIdentity 2
      example_setIdentityLabel example_identity None example_getIdentities
      example_sign example_codec "[[]]" "''send''" 5 example_signed "\<lambda>k. ''[]''" "\<lambda>t. ''1970''"
      Map.empty example_profile example_keyring]
  show ?thesis
    using at_1 at_2 k out inside by simp
qed

lemma appendSignature_unfold:
  assumes "keyring p = Some k" and "nth_entry k n = Some e"
  shows "appendSignature sign bts p h n i t nc =
     (case sign e i (bts (transaction t) nc) ''chain!'' of
        Inl x \<Rightarrow> Inl (EntryFailure x)
      | Inr s \<Rightarrow>
          Inr (\<lparr>transaction = transaction t, primarySignature = primarySignature t,
                otherSignatures = length h\<rparr>,
               h @ [deref h (otherSignatures t) @ [\<lparr>publicKey = pubkey i, nonce = nc, signature = s\<rparr>]]))"
  using assms by (simp add: appendSignature_def alloc_def Let_def split: sum.split)

lemma signTransaction_unfold:
  assumes "keyring p = Some k" and "nth_entry k n = Some e"
  shows "signTransaction sign bts p h n i tx nc =
     (case sign e i (bts tx nc) ''chain!'' of
        Inl x \<Rightarrow> Inl (EntryFailure x)
      | Inr s \<Rightarrow>
          Inr (\<lparr>transaction = tx,
                primarySignature = \<lparr>publicKey = pubkey i, nonce = nc, signature = s\<rparr>,
                otherSignatures = length h\<rparr>,
               h @ [[]]))"
  using assms by (simp add: signTransaction_def alloc_def Let_def split: sum.split)

text \<open>
  Claim C3. On an unlocked profile, with a valid entry index and an input
  \<open>SignedTransaction\<close> \<open>t\<close> whose array is allocated, \<open>appendSignature\<close> passes on the
  entry's signing failure, and otherwise returns a value with \<open>t\<close>'s transaction and
  primary signature whose \<open>otherSignatures\<close> is a new array: every array allocated
  before the call, \<open>t\<close>'s included, is unchanged, and the new array is \<open>t\<close>'s followed
  by exactly one \<open>FullSignature\<close>, which holds the identity's public key, the nonce
  passed in and the entry's signature.
\<close>

theorem appendSignature_appends_one:
  "keyring p = Some k \<longrightarrow> 0 \<le> n \<longrightarrow> n < int (length (getEntries k)) \<longrightarrow>
   otherSignatures t < length h \<longrightarrow>
     (case sign (getEntries k ! nat n) i (bts (transaction t) nc) ''chain!'' of
        Inl x \<Rightarrow> appendSignature sign bts p h n i t nc = Inl (EntryFailure x)
      | Inr s \<Rightarrow>
          (\<exists>r h'. appendSignature sign bts p h n i t nc = Inr (r, h')
             \<and> transaction r = transaction t
             \<and> primarySignature r = primarySignature t
             \<and> (\<forall>a. a < length h \<longrightarrow> deref h' a = deref h a)
             \<and> otherSignatures r \<noteq> otherSignatures t
             \<and> deref h' (otherSignatures r) =
                 deref h (otherSignatures t) @ [\<lparr>publicKey = pubkey i, nonce = nc, signature = s\<rparr>]
             \<and> length (deref h' (otherSignatures r)) = Suc (length (deref h (otherSignatures t)))))"
proof (intro impI)
  assume k: "keyring p = Some k" and n: "0 \<le> n" "n < int (length (getEntries k))"
    and t: "otherSignatures t < length h"
  from n have e: "nth_entry k n = Some (getEntries k ! nat n)"
    by (rule nth_entry_Some)
  show "case sign (getEntries k ! nat n) i (bts (transaction t) nc) ''chain!'' of
        Inl x \<Rightarrow> appendSignature sign bts p h n i t nc = Inl (EntryFailure x)
      | Inr s \<Rightarrow>
          (\<exists>r h'. appendSignature sign bts p h n i t nc = Inr (r, h')
             \<and> transaction r = transaction t
             \<and> primarySignature r = primarySignature t
             \<and> (\<forall>a. a < length h \<longrightarrow> deref h' a = deref h a)
             \<and> otherSignatures r \<noteq> otherSignatures t
             \<and> deref h' (otherSignatures r) =
                 deref h (otherSignatures t) @ [\<lparr>publicKey = pubkey i, nonce = nc, signature = s\<rparr>]
             \<and> length (deref h' (otherSignatures r)) = Suc (length (deref h (otherSignatures t))))"
    using t by (auto simp: appendSignature_unfold [OF k e] deref_def nth_append split: sum.split)
qed

text \<open>
  Claim C4. On an unlocked profile with a valid entry index, \<open>signTransaction\<close> passes
  on the entry's signing failure, and otherwise returns a \<open>SignedTransaction\<close> whose
  transaction is the input, whose primary signature holds the identity's public key,
  the nonce passed in and the signature the addressed entry made over
  \<open>codec.bytesToSign(transaction, nonce)\<close>, and whose \<open>otherSignatures\<close> is empty.
\<close>

theorem signTransaction_result:
  "keyring p = Some k \<longrightarrow> 0 \<le> n \<longrightarrow> n < int (length (getEntries k)) \<longrightarrow>
     (case sign (getEntries k ! nat n) i (bts tx nc) ''chain!'' of
        Inl x \<Rightarrow> signTransaction sign bts p h n i tx nc = Inl (EntryFailure x)
      | Inr s \<Rightarrow>
          (\<exists>r h'. signTransaction sign bts p h n i tx nc = Inr (r, h')
             \<and> transaction r = tx
             \<and> publicKey (primarySignature r) = pubkey i
             \<and> nonce (primarySignature r) = nc
             \<and> signature (primarySignature r) = s
             \<and> deref h' (otherSignatures r) = []
             \<and> (\<forall>a. a < length h \<longrightarrow> deref h' a = deref h a)))"
proof (intro impI)
  assume k: "keyring p = Some k" and n: "0 \<le> n" "n < int (length (getEntries k))"
  from n have e: "nth_entry k n = Some (getEntries k ! nat n)"
    by (rule nth_entry_Some)
  show "case sign (getEntries k ! nat n) i (bts tx nc) ''chain!'' of
        Inl x \<Rightarrow> signTransaction sign bts p h n i tx nc = Inl (EntryFailure x)
      | Inr s \<Rightarrow>
          (\<exists>r h'. signTransaction sign bts p h n i tx nc = Inr (r, h')
             \<and> transaction r = tx
             \<and> publicKey (primarySignature r) = pubkey i
             \<and> nonce (primarySignature r) = nc
             \<and> signature (primarySignature r) = s
             \<and> deref h' (otherSignatures r) = []
             \<and> (\<forall>a. a < length h \<longrightarrow> deref h' a = deref h a))"
    by (auto simp: signTransaction_unfold [OF k e] deref_def nth_append split: sum.split)
qed

text \<open>
  Claim C10. The chain id handed to the entry's \<open>createTransactionSignature\<close> is the
  string \<open>chain!\<close>, whatever the transaction, identity and nonce. An entry that throws
  the chain id it is called with makes both operations fail with \<open>chain!\<close>; and two
  entries that agree on \<open>chain!\<close> give the same results, however they differ on other
  chain ids.
\<close>

theorem chain_id_is_constant:
  "(keyring p = Some k \<longrightarrow> 0 \<le> n \<longrightarrow> n < int (length (getEntries k)) \<longrightarrow>
      signTransaction (\<lambda>e i bs c. Inl c) bts p h n i tx nc = Inl (EntryFailure ''chain!'')
    \<and> appendSignature (\<lambda>e i bs c. Inl c) bts p h n i t nc = Inl (EntryFailure ''chain!''))
   \<and> ((\<forall>e i bs. sign e i bs ''chain!'' = sign' e i bs ''chain!'') \<longrightarrow>
        signTransaction sign bts p h n i tx nc = signTransaction sign' bts p h n i tx nc
      \<and> appendSignature sign bts p h n i t nc = appendSignature sign' bts p h n i t nc)"
proof (intro conjI impI)
  assume k: "keyring p = Some k" and n: "0 \<le> n" "n < int (length (getEntries k))"
  from n have e: "nth_entry k n = Some (getEntries k ! nat n)"
    by (rule nth_entry_Some)
  show "signTransaction (\<lambda>e i bs c. Inl c) bts p h n i tx nc = Inl (EntryFailure ''chain!'')"
    by (simp add: signTransaction_unfold [OF k e])
  show "appendSignature (\<lambda>e i bs c. Inl c) bts p h n i t nc = Inl (EntryFailure ''chain!'')"
    by (simp add: appendSignature_unfold [OF k e])
next
  assume same: "\<forall>e i bs. sign e i bs ''chain!'' = sign' e i bs ''chain!''"
  show "signTransaction sign bts p h n i tx nc = signTransaction sign' bts p h n i tx nc"
    by (simp add: signTransaction_def same Let_def split: option.split)
  show "appendSignature sign bts p h n i t nc = appendSignature sign' bts p h n i t nc"
    by (simp add: appendSignature_def same Let_def split: option.split)
qed

lemma example_in_range:
  "keyring example_profile = Some example_keyring"
  "(0::int) \<le> 1" "1 < int (length (getEntries example_keyring))"
  "otherSignatures example_signed < length example_heap"
  "getEntries example_keyring ! nat 1 = 7"
  by (simp_all add: example_profile_def example_keyring_def example_signed_def example_heap_def)

lemma example_sign_value:
  "example_sign 7 example_identity bs c = Inr (7 # bs)"
  by (simp add: example_sign_def example_identity_def)

lemma example_cosigned_allocated:
  "otherSignatures example_cosigned < length example_cosigned_heap"
  "deref example_cosigned_heap (otherSignatures example_cosigned)
     = [example_first_cosignature, example_second_cosignature]"
  "deref example_cosigned_heap 0 = []"
  "transaction example_cosigned = ''send''"
  by (simp_all add: example_cosigned_def example_cosigned_heap_def deref_def)

theorem appendSignature_appends_one_witness:
  "keyring example_profile = Some example_keyring
   \<and> otherSignatures example_cosigned < length example_cosigned_heap
   \<and> example_first_cosignature \<noteq> example_second_cosignature
   \<and> deref example_cosigned_heap (otherSignatures example_cosigned)
       = [example_first_cosignature, example_second_cosignature]
   \<and> (\<exists>r h'. appendSignature example_sign example_codec example_profile example_cosigned_heap 1
                example_identity example_cosigned 5 = Inr (r, h')
          \<and> transaction r = transaction example_cosigned
          \<and> primarySignature r = primarySignature example_cosigned
          \<and> otherSignatures r \<noteq> otherSignatures example_cosigned
          \<and> deref h' 0 = []
          \<and> deref h' (otherSignatures example_cosigned)
              = [example_first_cosignature, example_second_cosignature]
          \<and> deref h' (otherSignatures r) =
              [example_first_cosignature, example_second_cosignature,
               \<lparr>publicKey = pubkey example_identity, nonce = 5,
                signature = 7 # example_codec ''send'' 5\<rparr>]
          \<and> length (deref h' (otherSignatures r)) = 3)"
proof -
  note w = appendSignature_appends_one [where p = example_profile and k = example_keyring
      and n = 1 and t = example_cosigned and h = example_cosigned_heap and sign = example_sign
      and i = example_identity and bts = example_codec and nc = 5]
  have two: "length example_cosigned_heap = 2"
    by (simp add: example_cosigned_heap_def)
  have differ: "example_first_cosignature \<noteq> example_second_cosignature"
    by (simp add: example_first_cosignature_def example_second_cosignature_def)
  from w obtain r h' where r:
    "appendSignature example_sign example_codec example_profile example_cosigned_heap 1
       example_identity example_cosigned 5 = Inr (r, h')"
    "transaction r = transaction example_cosigned"
    "primarySignature r = primarySignature example_cosigned"
    "\<forall>a. a < length example_cosigned_heap \<longrightarrow> deref h' a = deref example_cosigned_heap a"
    "otherSignatures r \<noteq> otherSignatures example_cosigned"
    "deref h' (otherSignatures r) =
       deref example_cosigned_heap (otherSignatures example_cosigned)
         @ [\<lparr>publicKey = pubkey example_identity, nonce = 5,
             signature = 7 # example_codec ''send'' 5\<rparr>]"
    by (auto simp: example_in_range example_keyring_def example_sign_value
        example_cosigned_allocated)
  from r(4) two have kept: "deref h' 0 = deref example_cosigned_heap 0"
    "deref h' (otherSignatures example_cosigned)
       = deref example_cosigned_heap (otherSignatures example_cosigned)"
    using example_cosigned_allocated(1) by simp_all
  show ?thesis
    using r(1,2,3,5,6) kept differ example_in_range(1) example_cosigned_allocated by auto
qed

theorem signTransaction_result_witness:
  "keyring example_profile = Some example_keyring
   \<and> (\<exists>r h'. signTransaction example_sign example_codec example_profile example_heap 1
                example_identity ''send'' 5 = Inr (r, h')
          \<and> transaction r = ''send''
          \<and> primarySignature r =
              \<lparr>publicKey = pubkey example_identity, nonce = 5,
               signature = 7 # example_codec ''send'' 5\<rparr>
          \<and> deref h' (otherSignatures r) = [])"
proof -
  note w = signTransaction_result [where p = example_profile and k = example_keyring and n = 1
      and sign = example_sign and i = example_identity and bts = example_codec
      and tx = "''send''" and nc = 5 and h = example_heap]
  from w obtain r h' where
    "signTransaction example_sign example_codec example_profile example_heap 1
       example_identity ''send'' 5 = Inr (r, h')"
    "transaction r = ''send''"
    "publicKey (primarySignature r) = pubkey example_identity"
    "nonce (primarySignature r) = 5"
    "signature (primarySignature r) = 7 # example_codec ''send'' 5"
    "deref h' (otherSignatures r) = []"
    by (auto simp: example_in_range example_keyring_def example_sign_value)
  then show ?thesis
    using example_in_range by auto
qed

theorem chain_id_is_constant_witness:
  "keyring example_profile = Some example_keyring
   \<and> signTransaction (\<lambda>e i bs c. Inl c) example_codec example_profile example_heap 1
        example_identity ''send'' 5 = Inl (EntryFailure ''chain!'')
   \<and> appendSignature (\<lambda>e i bs c. Inl c) example_codec example_profile example_heap 1
        example_identity example_signed 5 = Inl (EntryFailure ''chain!'')
   \<and> signTransaction example_sign example_codec example_profile example_heap 1
        example_identity ''send'' 5
      = signTransaction example_sign_other_chains example_codec example_profile example_heap 1
        example_identity ''send'' 5
   \<and> appendSignature example_sign example_codec example_profile example_heap 1
        example_identity example_signed 5
      = appendSignature example_sign_other_chains example_codec example_profile example_heap 1
        example_identity example_signed 5"
proof -
  have same: "\<forall>e i bs. example_sign e i bs ''chain!'' = example_sign_other_chains e i bs ''chain!''"
    by (simp add: example_sign_other_chains_def)
  show ?thesis
    using chain_id_is_constant [where p = example_profile and k = example_keyring and n = 1
        and bts = example_codec and h = example_heap and i = example_identity
        and tx = "''send''" and nc = 5 and t = example_signed and sign = example_sign
        and sign' = example_sign_other_chains]
      same example_in_range
    by simp
qed

text \<open>
  Claim C8 as stated fails on an unlocked profile whose creation date is the invalid
  date: \<open>storeIn\<close> clears the store, then \<open>toISOString\<close> throws, and no record is
  written.
\<close>

theorem storeIn_invalid_date_clears_only:
  "keyring example_undated = Some example_keyring
   \<and> (storeIn (\<lambda>k. ''[]'') (\<lambda>t. ''1970-01-01T00:00:00.000Z'') example_undated example_store
        :: (string error + unit) \<times> store) = (Inl InvalidTimeValue, Map.empty)"
  by (simp add: storeIn_def example_undated_def toISOString_def db_clear_def)

text \<open>
  Claim C8, amended. On a locked profile \<open>storeIn\<close> fails with \<open>ProfileLocked\<close> and
  leaves the store as it was. On an unlocked profile whose creation date is a valid
  date, \<open>storeIn\<close> succeeds, and the store it leaves is the cleared store with two
  records put: the date's text under \<open>created_at\<close> and the keyring's serialization
  under \<open>keyring\<close>; every other key is absent, whatever the store held before.
\<close>

theorem storeIn_overwrites_store:
  "(keyring p = None \<longrightarrow>
      (storeIn ser iso_text p db :: ('x error + unit) \<times> store) = (Inl ProfileLocked, db))
   \<and> (keyring p = Some k \<longrightarrow> createdAt p = TimeValue t \<longrightarrow>
        (storeIn ser iso_text p db :: ('x error + unit) \<times> store)
          = (Inr (), db_put (db_put (db_clear db) storageKeyCreatedAt (iso_text t))
                       storageKeyKeyring (ser k))
      \<and> snd (storeIn ser iso_text p db :: ('x error + unit) \<times> store) storageKeyCreatedAt
          = Some (iso_text t)
      \<and> snd (storeIn ser iso_text p db :: ('x error + unit) \<times> store) storageKeyKeyring
          = Some (ser k)
      \<and> (\<forall>key. key \<noteq> storageKeyCreatedAt \<longrightarrow> key \<noteq> storageKeyKeyring \<longrightarrow>
            snd (storeIn ser iso_text p db :: ('x error + unit) \<times> store) key = None))"
  by (simp add: storeIn_def toISOString_def db_put_def db_clear_def
      storageKeyCreatedAt_def storageKeyKeyring_def)

theorem storeIn_overwrites_store_witness:
  "keyring example_profile = Some example_keyring
   \<and> createdAt example_profile = TimeValue 0
   \<and> (storeIn (\<lambda>k. ''[]'') (\<lambda>t. ''1970-01-01T00:00:00.000Z'') example_profile example_store
        :: (string error + unit) \<times> store)
       = (Inr (), [''created_at'' \<mapsto> ''1970-01-01T00:00:00.000Z'', ''keyring'' \<mapsto> ''[]''])
   \<and> snd (storeIn (\<lambda>k. ''[]'') (\<lambda>t. ''1970-01-01T00:00:00.000Z'') example_profile example_store
        :: (string error + unit) \<times> store) ''foo'' = None
   \<and> keyring (lock example_profile) = None
   \<and> (storeIn (\<lambda>k. ''[]'') (\<lambda>t. ''1970-01-01T00:00:00.000Z'') (lock example_profile) example_store
        :: (string error + unit) \<times> store) = (Inl ProfileLocked, example_store)"
proof -
  have k: "keyring example_profile = Some example_keyring"
    and c: "createdAt example_profile = TimeValue 0"
    and l: "keyring (lock example_profile) = None"
    by (simp_all add: example_profile_def lock_def)
  have foo: "''foo'' \<noteq> storageKeyCreatedAt" "''foo'' \<noteq> storageKeyKeyring"
    by (simp_all add: storageKeyCreatedAt_def storageKeyKeyring_def)
  show ?thesis
    using storeIn_overwrites_store [of example_profile "\<lambda>k. ''[]''"
        "\<lambda>t. ''1970-01-01T00:00:00.000Z''" example_store example_keyring 0,
        where ?'x = string]
      storeIn_overwrites_store [of "lock example_profile" "\<lambda>k. ''[]''"
        "\<lambda>t. ''1970-01-01T00:00:00.000Z''" example_store example_keyring 0,
        where ?'x = string]
      k c l foo
    by (simp add: db_put_def db_clear_def storageKeyCreatedAt_def storageKeyKeyring_def)
qed

text \<open>
  Claim C9. \<open>loadFrom\<close> fails with \<open>MissingField\<close> exactly when the \<open>created_at\<close> record
  or the \<open>keyring\<close> record is absent. When both are present it is the constructor's
  result on the parsed date and the keyring text: an unlocked profile holding both,
  or the \<open>Keyring\<close> constructor's failure.
\<close>

theorem loadFrom_reads_both_records:
  "((\<exists>key. (loadFrom parse deserialize db :: 'x error + 'e user_profile) = Inl (MissingField key))
      \<longleftrightarrow> (db storageKeyCreatedAt = None \<or> db storageKeyKeyring = None))
   \<and> (db storageKeyCreatedAt = Some c \<longrightarrow> db storageKeyKeyring = Some s \<longrightarrow>
        (loadFrom parse deserialize db :: 'x error + 'e user_profile) =
          (case deserialize s of
             None \<Rightarrow> Inl InvalidSerialization
           | Some k \<Rightarrow> Inr \<lparr>createdAt = parse c, keyring = Some k, lockedValue = False\<rparr>))"
  by (auto simp: loadFrom_def db_get_def UserProfile_def split: option.splits)

theorem loadFrom_reads_both_records_witness:
  "example_stored storageKeyCreatedAt = Some ''1970-01-01T00:00:00.000Z''
   \<and> example_stored storageKeyKeyring = Some ''[]''
   \<and> (loadFrom example_parse example_deserialize example_stored :: string error + nat user_profile)
       = Inr \<lparr>createdAt = TimeValue 0, keyring = Some (Keyring []), lockedValue = False\<rparr>
   \<and> example_store storageKeyCreatedAt = None
   \<and> (\<exists>key. (loadFrom example_parse example_deserialize example_store
               :: string error + nat user_profile) = Inl (MissingField key))"
proof -
  have stored: "example_stored storageKeyCreatedAt = Some ''1970-01-01T00:00:00.000Z''"
    "example_stored storageKeyKeyring = Some ''[]''"
    and absent: "example_store storageKeyCreatedAt = None"
    by (simp_all add: example_stored_def example_store_def storageKeyCreatedAt_def
        storageKeyKeyring_def)
  show ?thesis
    using loadFrom_reads_both_records [of example_parse example_deserialize example_stored
        "''1970-01-01T00:00:00.000Z''" "''[]''", where ?'x = string]
      loadFrom_reads_both_records [of example_parse example_deserialize example_store
        "''1970-01-01T00:00:00.000Z''" "''[]''", where ?'x = string]
      stored absent
    by (simp add: example_parse_def example_deserialize_def)
qed

end
